theory Spec2Isabelle
  imports Main
begin

section \<open>The document view\<close>

text \<open>
  \<^verbatim>\<open>parse_xml\<close> reads its input through \<^verbatim>\<open>xml.etree.ElementTree\<close>. The tree that
  \<^verbatim>\<open>ET.fromstring\<close> returns is the input of the model: an element has a tag, an attribute
  dictionary, an optional text and its children in document order.
\<close>

datatype element =
  Element (tag: string) (attrib: "(string \<times> string) list") (etext: "string option")
    (children: "element list")

text \<open>\<^verbatim>\<open>Element.iter()\<close>: the element itself, then its descendants, in document order.\<close>

fun iter :: "element \<Rightarrow> element list" where
  "iter (Element t a x cs) = Element t a x cs # concat (map iter cs)"

text \<open>
  The paths of the source are \<^verbatim>\<open>.//A\<close> and \<^verbatim>\<open>.//A/B/C\<close>: one descendant step, then child
  steps. A descendant step never yields the context element itself.
\<close>

datatype step = Descendant string | Child string

fun select :: "step \<Rightarrow> element \<Rightarrow> element list" where
  "select (Descendant t) e = filter (\<lambda>x. tag x = t) (concat (map iter (children e)))"
| "select (Child t) e = filter (\<lambda>x. tag x = t) (children e)"

fun iterfind :: "step list \<Rightarrow> element list \<Rightarrow> element list" where
  "iterfind [] es = es"
| "iterfind (s # ss) es = iterfind ss (concat (map (select s) es))"

definition findall :: "step list \<Rightarrow> element \<Rightarrow> element list" where
  "findall p e = iterfind p [e]"

definition find :: "step list \<Rightarrow> element \<Rightarrow> element option" where
  "find p e = (case findall p e of [] \<Rightarrow> None | x # _ \<Rightarrow> Some x)"

text \<open>
  \<^verbatim>\<open>findtext(path)\<close> is \<^verbatim>\<open>None\<close> when nothing matches and the empty string when the first
  match has no text; \<^verbatim>\<open>findtext(path, default)\<close> is the default when nothing matches.
\<close>

definition findtext_none :: "step list \<Rightarrow> element \<Rightarrow> string option" where
  "findtext_none p e =
     (case find p e of
        None \<Rightarrow> None
      | Some x \<Rightarrow> (case etext x of None \<Rightarrow> Some [] | Some t \<Rightarrow> Some t))"

definition findtext :: "step list \<Rightarrow> string \<Rightarrow> element \<Rightarrow> string" where
  "findtext p dflt e = (case findtext_none p e of None \<Rightarrow> dflt | Some t \<Rightarrow> t)"

text \<open>\<^verbatim>\<open>Element.get(key, default)\<close> and \<^verbatim>\<open>key in element.attrib\<close>.\<close>

definition get :: "element \<Rightarrow> string \<Rightarrow> string \<Rightarrow> string" where
  "get e k dflt = (case map_of (attrib e) k of None \<Rightarrow> dflt | Some v \<Rightarrow> v)"

definition has_attrib :: "element \<Rightarrow> string \<Rightarrow> bool" where
  "has_attrib e k = (map_of (attrib e) k \<noteq> None)"

section \<open>Errors\<close>

text \<open>
  Every exception the request can end with. \<open>ValueError\<close> carries the message of a
  \<^verbatim>\<open>raise ValueError(...)\<close> of the source; the others are raised by the library calls the
  source makes: \<^verbatim>\<open>int()\<close> on a text that is no integer literal, \<^verbatim>\<open>strptime\<close> on a text that
  does not match the format or names no calendar date, \<^verbatim>\<open>strptime\<close> on \<^verbatim>\<open>None\<close>, and a
  date beyond year 9999.
\<close>

datatype error =
  ValueError string
| IntValueError string
| StrptimeValueError string
| StrptimeTypeError
| OverflowError

section \<open>int() on a string\<close>

definition is_space :: "char \<Rightarrow> bool" where
  "is_space c = (c \<in> set [CHR 0x09, CHR 0x0A, CHR 0x0B, CHR 0x0C, CHR 0x0D,
                           CHR 0x1C, CHR 0x1D, CHR 0x1E, CHR 0x1F, CHR 0x20])"

definition strip :: "string \<Rightarrow> string" where
  "strip s = rev (dropWhile is_space (rev (dropWhile is_space s)))"

definition is_digit :: "char \<Rightarrow> bool" where
  "is_digit c = (c \<in> set ''0123456789'')"

definition digit_val :: "char \<Rightarrow> int" where
  "digit_val c = int (of_char c) - 48"

text \<open>
  \<^verbatim>\<open>int(s)\<close> for a string: surrounding whitespace is dropped, then an optional sign and
  decimal digits, single underscores allowed between two digits. Strings are ASCII here,
  and the limit of recent interpreters on the number of digits is left out.
\<close>

fun int_digits :: "int \<Rightarrow> string \<Rightarrow> int option" where
  "int_digits acc [] = Some acc"
| "int_digits acc [c] = (if is_digit c then Some (10 * acc + digit_val c) else None)"
| "int_digits acc (c # d # ds) =
     (if is_digit c then int_digits (10 * acc + digit_val c) (d # ds)
      else if c = CHR ''_'' \<and> is_digit d then int_digits (10 * acc + digit_val d) ds
      else None)"

definition unsigned_int :: "string \<Rightarrow> int option" where
  "unsigned_int s =
     (case s of [] \<Rightarrow> None
      | c # cs \<Rightarrow> if is_digit c then int_digits (digit_val c) cs else None)"

definition py_int :: "string \<Rightarrow> error + int" where
  "py_int s =
     (let t = strip s;
          r = (case t of [] \<Rightarrow> None
               | c # cs \<Rightarrow>
                   if c = CHR ''-'' then map_option uminus (unsigned_int cs)
                   else if c = CHR ''+'' then unsigned_int cs
                   else unsigned_int t)
      in case r of None \<Rightarrow> Inl (IntValueError s) | Some n \<Rightarrow> Inr n)"

section \<open>Dates\<close>

text \<open>
  A naive \<^verbatim>\<open>datetime\<close> is a calendar day, kept as its proleptic Gregorian ordinal
  (\<^verbatim>\<open>toordinal()\<close>: 1 is 0001-01-01), and the time of day in microseconds. Python orders
  datetimes by day, then by time of day.
\<close>

record datetime =
  day_ordinal :: int
  usec_of_day :: int

definition dt_less :: "datetime \<Rightarrow> datetime \<Rightarrow> bool" where
  "dt_less a b =
     (day_ordinal a < day_ordinal b \<or>
      (day_ordinal a = day_ordinal b \<and> usec_of_day a < usec_of_day b))"

definition MAXORDINAL :: int where
  "MAXORDINAL = 3652059"

text \<open>\<^verbatim>\<open>dt + timedelta(days=n)\<close>, which raises \<^verbatim>\<open>OverflowError\<close> outside years 1 to 9999.\<close>

definition add_days :: "datetime \<Rightarrow> int \<Rightarrow> error + datetime" where
  "add_days a n =
     (if day_ordinal a + n < 1 \<or> MAXORDINAL < day_ordinal a + n then Inl OverflowError
      else Inr (a\<lparr>day_ordinal := day_ordinal a + n\<rparr>))"

text \<open>\<^verbatim>\<open>(a - b).days\<close>: a timedelta is normalised, so its days are the floor of the difference.\<close>

definition delta_days :: "datetime \<Rightarrow> datetime \<Rightarrow> int" where
  "delta_days a b =
     ((day_ordinal a - day_ordinal b) * 86400000000 + (usec_of_day a - usec_of_day b))
       div 86400000000"

definition is_leap :: "int \<Rightarrow> bool" where
  "is_leap y = (y mod 4 = 0 \<and> (y mod 100 \<noteq> 0 \<or> y mod 400 = 0))"

definition days_in_month :: "int \<Rightarrow> int \<Rightarrow> int" where
  "days_in_month y m =
     (if m = 2 then (if is_leap y then 29 else 28)
      else if m = 4 \<or> m = 6 \<or> m = 9 \<or> m = 11 then 30 else 31)"

definition days_before_year :: "int \<Rightarrow> int" where
  "days_before_year y = (y - 1) * 365 + (y - 1) div 4 - (y - 1) div 100 + (y - 1) div 400"

definition days_before_month :: "int \<Rightarrow> int \<Rightarrow> int" where
  "days_before_month y m = sum_list (map (days_in_month y) [1..m - 1])"

definition ymd2ord :: "int \<Rightarrow> int \<Rightarrow> int \<Rightarrow> int" where
  "ymd2ord y m d = days_before_year y + days_before_month y m + d"

text \<open>
  \<^verbatim>\<open>datetime.strptime(s, "%d/%m/%Y")\<close>. The day is one or two digits (a leading zero or
  blank allowed) from 1 to 31, the month one or two digits from 1 to 12, the year exactly
  four digits; nothing may follow. The fields must name a date of the calendar, from year
  1 on. The result is midnight of that day.
\<close>

definition nonzero_digit :: "char \<Rightarrow> bool" where
  "nonzero_digit c = (is_digit c \<and> c \<noteq> CHR ''0'')"

definition day_field :: "string \<Rightarrow> int option" where
  "day_field s =
     (case s of
        [c] \<Rightarrow> if nonzero_digit c then Some (digit_val c) else None
      | [a, b] \<Rightarrow>
          if a = CHR ''3'' \<and> (b = CHR ''0'' \<or> b = CHR ''1'') then Some (30 + digit_val b)
          else if (a = CHR ''1'' \<or> a = CHR ''2'') \<and> is_digit b
            then Some (10 * digit_val a + digit_val b)
          else if (a = CHR ''0'' \<or> a = CHR '' '') \<and> nonzero_digit b then Some (digit_val b)
          else None
      | _ \<Rightarrow> None)"

definition month_field :: "string \<Rightarrow> int option" where
  "month_field s =
     (case s of
        [c] \<Rightarrow> if nonzero_digit c then Some (digit_val c) else None
      | [a, b] \<Rightarrow>
          if a = CHR ''1'' \<and> (b = CHR ''0'' \<or> b = CHR ''1'' \<or> b = CHR ''2'')
            then Some (10 + digit_val b)
          else if a = CHR ''0'' \<and> nonzero_digit b then Some (digit_val b)
          else None
      | _ \<Rightarrow> None)"

definition year_field :: "string \<Rightarrow> int option" where
  "year_field s =
     (case s of
        [a, b, c, d] \<Rightarrow>
          if is_digit a \<and> is_digit b \<and> is_digit c \<and> is_digit d
          then Some (1000 * digit_val a + 100 * digit_val b + 10 * digit_val c + digit_val d)
          else None
      | _ \<Rightarrow> None)"

definition until_slash :: "string \<Rightarrow> string" where
  "until_slash s = takeWhile (\<lambda>c. c \<noteq> CHR ''/'') s"

definition after_slash :: "string \<Rightarrow> string option" where
  "after_slash s =
     (case dropWhile (\<lambda>c. c \<noteq> CHR ''/'') s of [] \<Rightarrow> None | _ # r \<Rightarrow> Some r)"

definition parse_dmy :: "string \<Rightarrow> (int \<times> int \<times> int) option" where
  "parse_dmy s =
     (case after_slash s of None \<Rightarrow> None
      | Some r1 \<Rightarrow>
     (case after_slash r1 of None \<Rightarrow> None
      | Some r2 \<Rightarrow>
     (case (day_field (until_slash s), month_field (until_slash r1), year_field r2) of
        (Some d, Some m, Some y) \<Rightarrow> Some (d, m, y)
      | _ \<Rightarrow> None)))"

definition strptime :: "string option \<Rightarrow> error + datetime" where
  "strptime x =
     (case x of
        None \<Rightarrow> Inl StrptimeTypeError
      | Some s \<Rightarrow>
          (case parse_dmy s of
             None \<Rightarrow> Inl (StrptimeValueError s)
           | Some (d, m, y) \<Rightarrow>
               if 1 \<le> y \<and> d \<le> days_in_month y m
               then Inr \<lparr>day_ordinal = ymd2ord y m d, usec_of_day = 0\<rparr>
               else Inl (StrptimeValueError s)))"

section \<open>Reference data\<close>

text \<open>
  The prices of the source are Python floats. The model does not evaluate floating-point
  arithmetic: a float is the expression the code builds, over the literals of the reference
  data.
\<close>

datatype pyfloat =
  FLit string
| FInt int
| FAdd pyfloat pyfloat
| FMul pyfloat pyfloat
| FDiv pyfloat pyfloat
| FRound pyfloat int

text \<open>
  The module \<^verbatim>\<open>constants\<close> that the source imports with \<^verbatim>\<open>from constants import *\<close>. Its
  values are parameters of every function below.
\<close>

record constants =
  DEFAULT_LANGUAGE :: string
  DEFAULT_CURRENCY :: string
  DEFAULT_NATIONALITY :: string
  VALID_LANGUAGES :: "string list"
  VALID_CURRENCIES :: "string list"
  VALID_NATIONALITIES :: "string list"
  CHILD_AGE_LIMIT :: int
  ALLOWED_CHILD_COUNT_PER_ROOM :: int
  ALLOWED_ROOM_GUEST_COUNT :: int
  EXCHANGE_RATES :: "string \<times> string \<rightharpoonup> pyfloat"
  NET_PRICE :: pyfloat
  MARKUP_PERCENTAGE :: pyfloat

text \<open>
  What a request reads from outside: the clock at the lead-time check
  (\<^verbatim>\<open>datetime.today()\<close>), and for the identifier of the response the formatted clock
  (\<^verbatim>\<open>datetime.now().strftime('%Y%m%d%H%M%S')\<close>) and a fresh \<^verbatim>\<open>str(uuid.uuid4())\<close>.
\<close>

record env =
  today :: datetime
  now_stamp :: string
  uuid4 :: string

section \<open>Rooms\<close>

record pax =
  pax_type :: string
  age :: int

text \<open>The inner loop of \<^verbatim>\<open>_parse_rooms\<close>, over the \<^verbatim>\<open>Pax\<close> elements of one \<^verbatim>\<open>Paxes\<close> group.\<close>

fun pax_loop :: "constants \<Rightarrow> element list \<Rightarrow> pax list \<Rightarrow> int \<Rightarrow> error + (pax list \<times> int)" where
  "pax_loop c [] pax_list child_count = Inr (pax_list, child_count)"
| "pax_loop c (p # ps) pax_list child_count =
     (case py_int (get p ''age'' ''0'') of
        Inl e \<Rightarrow> Inl e
      | Inr a \<Rightarrow>
          (let t = (if a \<le> CHILD_AGE_LIMIT c then ''Child'' else ''Adult'')
           in pax_loop c ps (pax_list @ [\<lparr>pax_type = t, age = a\<rparr>])
                (if t = ''Child'' then child_count + 1 else child_count)))"

definition validate_room :: "constants \<Rightarrow> pax list \<Rightarrow> int \<Rightarrow> error + unit" where
  "validate_room c pax_list child_count =
     (if child_count > ALLOWED_CHILD_COUNT_PER_ROOM c
        then Inl (ValueError ''Exceeded maximum allowed children per room'')
      else if int (length pax_list) > ALLOWED_ROOM_GUEST_COUNT c
        then Inl (ValueError ''Exceeded maximum allowed guests per room'')
      else if child_count > 0 \<and> list_all (\<lambda>p. pax_type p = ''Child'') pax_list
        then Inl (ValueError
          ''A child must have at least one accompanying adult in the same room'')
      else Inr ())"

text \<open>The outer loop of \<^verbatim>\<open>_parse_rooms\<close>, over the \<^verbatim>\<open>Paxes\<close> groups.\<close>

fun rooms_loop :: "constants \<Rightarrow> element list \<Rightarrow> pax list list \<Rightarrow> error + pax list list" where
  "rooms_loop c [] rooms = Inr rooms"
| "rooms_loop c (room # rs) rooms =
     (case pax_loop c (findall [Descendant ''Pax''] room) [] 0 of
        Inl e \<Rightarrow> Inl e
      | Inr (pax_list, child_count) \<Rightarrow>
          (case validate_room c pax_list child_count of
             Inl e \<Rightarrow> Inl e
           | Inr _ \<Rightarrow> rooms_loop c rs (rooms @ [pax_list])))"

definition parse_rooms :: "constants \<Rightarrow> element \<Rightarrow> error + pax list list" where
  "parse_rooms c root = rooms_loop c (findall [Descendant ''Paxes''] root) []"

section \<open>Basic fields and dates\<close>

definition validate_basic_fields ::
  "constants \<Rightarrow> string \<Rightarrow> string \<Rightarrow> string \<Rightarrow> int \<Rightarrow> error + unit" where
  "validate_basic_fields c lang cur natl quota =
     (if lang \<notin> set (VALID_LANGUAGES c) then Inl (ValueError (''Invalid language: '' @ lang))
      else if cur \<notin> set (VALID_CURRENCIES c) then Inl (ValueError (''Invalid currency: '' @ cur))
      else if natl \<notin> set (VALID_NATIONALITIES c)
        then Inl (ValueError (''Invalid nationality: '' @ natl))
      else if quota > 50 then Inl (ValueError ''optionsQuota cannot be greater than 50'')
      else Inr ())"

text \<open>
  \<^verbatim>\<open>_validate_dates\<close>. The clock is read once, after both dates have been parsed; the
  argument \<open>clock\<close> is what \<^verbatim>\<open>datetime.today()\<close> returns there: the current day and the
  current time of day.
\<close>

definition validate_dates ::
  "datetime \<Rightarrow> string option \<Rightarrow> string option \<Rightarrow> error + (datetime \<times> datetime)" where
  "validate_dates clock start_date_str end_date_str =
     (case strptime start_date_str of
        Inl e \<Rightarrow> Inl e
      | Inr start \<Rightarrow>
     (case strptime end_date_str of
        Inl e \<Rightarrow> Inl e
      | Inr end \<Rightarrow>
     (case add_days clock 2 of
        Inl e \<Rightarrow> Inl e
      | Inr limit \<Rightarrow>
          if dt_less start limit
            then Inl (ValueError ''StartDate must be at least 2 days from today'')
          else if delta_days end start < 3
            then Inl (ValueError ''Stay duration must be at least 3 nights'')
          else Inr (start, end))))"

section \<open>parse_xml\<close>

record request_record =
  language :: string
  options_quota :: int
  currency :: string
  nationality :: string
  start_date :: datetime
  end_date :: datetime
  ocg :: string
  rooms :: "pax list list option"

definition var_ocg :: string where
  "var_ocg = ''OCG_SECRET''"

definition required_params :: "string list" where
  "required_params = [''password'', ''username'', ''CompanyID'']"

text \<open>The loop over \<^verbatim>\<open>required_params\<close> in \<^verbatim>\<open>parse_xml\<close>.\<close>

fun check_params :: "element \<Rightarrow> string list \<Rightarrow> error + unit" where
  "check_params pe [] = Inr ()"
| "check_params pe (param # ps) =
     (if \<not> has_attrib pe param
        then Inl (ValueError (''Missing required parameter: '' @ param))
      else check_params pe ps)"

definition parameter_path :: "step list" where
  "parameter_path = [Descendant ''Configuration'', Child ''Parameters'', Child ''Parameter'']"

definition parse_xml :: "constants \<Rightarrow> datetime \<Rightarrow> element \<Rightarrow> error + request_record" where
  "parse_xml c clock root =
     (let lang = findtext [Descendant ''source'', Child ''languageCode''] (DEFAULT_LANGUAGE c) root
      in case py_int (findtext [Descendant ''optionsQuota''] ''20'' root) of
        Inl e \<Rightarrow> Inl e
      | Inr quota \<Rightarrow>
     (let cur = findtext [Descendant ''Currency''] (DEFAULT_CURRENCY c) root;
          natl = findtext [Descendant ''Nationality''] (DEFAULT_NATIONALITY c) root;
          start_date_str = findtext_none [Descendant ''StartDate''] root;
          end_date_str = findtext_none [Descendant ''EndDate''] root
      in case find parameter_path root of
        None \<Rightarrow> Inl (ValueError ''Missing required <Parameter> element'')
      | Some parameter_element \<Rightarrow>
     (case check_params parameter_element required_params of
        Inl e \<Rightarrow> Inl e
      | Inr _ \<Rightarrow>
     (case parse_rooms c root of
        Inl e \<Rightarrow> Inl e
      | Inr rs \<Rightarrow>
     (case validate_basic_fields c lang cur natl quota of
        Inl e \<Rightarrow> Inl e
      | Inr _ \<Rightarrow>
     (case validate_dates clock start_date_str end_date_str of
        Inl e \<Rightarrow> Inl e
      | Inr (start, end) \<Rightarrow>
          Inr \<lparr>language = lang, options_quota = quota, currency = cur, nationality = natl,
               start_date = start, end_date = end, ocg = var_ocg,
               rooms = (if rs \<noteq> [] then Some rs else None)\<rparr>))))))"

section \<open>Pricing and the response\<close>

definition calculate_selling_price :: "pyfloat \<Rightarrow> pyfloat \<Rightarrow> pyfloat" where
  "calculate_selling_price net_price mk =
     FRound (FAdd net_price (FMul net_price (FDiv mk (FInt 100)))) 2"

definition get_exchange_rate :: "constants \<Rightarrow> string \<Rightarrow> string \<Rightarrow> pyfloat" where
  "get_exchange_rate c from_currency to_currency =
     (case EXCHANGE_RATES c (from_currency, to_currency) of
        None \<Rightarrow> FLit ''1.0''
      | Some r \<Rightarrow> r)"

record price =
  minimumSellingPrice :: "pyfloat option"
  price_currency :: string
  net :: pyfloat
  selling_price :: pyfloat
  selling_currency :: string
  markup :: pyfloat
  exchange_rate :: pyfloat

record response =
  response_id :: string
  hotelCodeSupplier :: string
  market :: string
  price :: price
  response_rooms :: "pax list list option"

text \<open>
  \<^verbatim>\<open>generate_response\<close> returns \<^verbatim>\<open>json.dumps([response], indent=2)\<close>; the model returns the
  list that is serialised.
\<close>

definition generate_response :: "constants \<Rightarrow> env \<Rightarrow> request_record \<Rightarrow> response list" where
  "generate_response c ev parsed_data =
     (let unique_id = ''A#'' @ now_stamp ev @ ''-'' @ take 8 (uuid4 ev);
          rate = get_exchange_rate c ''USD'' (currency parsed_data);
          sp = FMul (calculate_selling_price (NET_PRICE c) (MARKUP_PERCENTAGE c)) rate
      in [\<lparr>response_id = unique_id,
           hotelCodeSupplier = ''39971881'',
           market = nationality parsed_data,
           price = \<lparr>minimumSellingPrice = None,
                     price_currency = currency parsed_data,
                     net = NET_PRICE c,
                     selling_price = sp,
                     selling_currency = currency parsed_data,
                     markup = MARKUP_PERCENTAGE c,
                     exchange_rate = rate\<rparr>,
           response_rooms = rooms parsed_data\<rparr>])"

definition process_request :: "constants \<Rightarrow> env \<Rightarrow> element \<Rightarrow> error + response list" where
  "process_request c ev root =
     (case parse_xml c (today ev) root of
        Inl e \<Rightarrow> Inl e
      | Inr parsed_data \<Rightarrow> Inr (generate_response c ev parsed_data))"

section \<open>Notions used in the statements\<close>

text \<open>
  Lines 19 to 34 of \<^verbatim>\<open>parse_xml\<close> on their own: the field extraction, up to the check
  of the credential attributes and before \<^verbatim>\<open>_parse_rooms\<close> is called.
\<close>

definition extract_fields ::
  "constants \<Rightarrow> element \<Rightarrow>
     error + (string \<times> int \<times> string \<times> string \<times> string option \<times> string option)" where
  "extract_fields c root =
     (let lang = findtext [Descendant ''source'', Child ''languageCode''] (DEFAULT_LANGUAGE c) root
      in case py_int (findtext [Descendant ''optionsQuota''] ''20'' root) of
        Inl e \<Rightarrow> Inl e
      | Inr quota \<Rightarrow>
     (let cur = findtext [Descendant ''Currency''] (DEFAULT_CURRENCY c) root;
          natl = findtext [Descendant ''Nationality''] (DEFAULT_NATIONALITY c) root;
          start_date_str = findtext_none [Descendant ''StartDate''] root;
          end_date_str = findtext_none [Descendant ''EndDate''] root
      in case find parameter_path root of
        None \<Rightarrow> Inl (ValueError ''Missing required <Parameter> element'')
      | Some parameter_element \<Rightarrow>
     (case check_params parameter_element required_params of
        Inl e \<Rightarrow> Inl e
      | Inr _ \<Rightarrow> Inr (lang, quota, cur, natl, start_date_str, end_date_str))))"

text \<open>
  The number of children and of adults in a room, the classification of line 65, and the
  relation between a \<^verbatim>\<open>Pax\<close> element and the guest built from it.
\<close>

definition children_in :: "pax list \<Rightarrow> int" where
  "children_in pl = int (length (filter (\<lambda>p. pax_type p = ''Child'') pl))"

definition adults_in :: "pax list \<Rightarrow> int" where
  "adults_in pl = int (length (filter (\<lambda>p. pax_type p = ''Adult'') pl))"

definition classify :: "constants \<Rightarrow> int \<Rightarrow> string" where
  "classify c a = (if a \<le> CHILD_AGE_LIMIT c then ''Child'' else ''Adult'')"

definition built_from :: "constants \<Rightarrow> element \<Rightarrow> pax \<Rightarrow> bool" where
  "built_from c p x =
     (py_int (get p ''age'' ''0'') = Inr (age x) \<and> pax_type x = classify c (age x))"

section \<open>A configuration and the documents of the tests\<close>

text \<open>
  Modelled from the spec: the module \<^verbatim>\<open>constants\<close> is missing from the sources. The values
  below are a configuration under which the tests of the repository pass (ages up to 5 are
  children, at most 2 children and 4 guests per room, the languages and currencies the
  tests accept). Only the closed examples use it; the general theorems hold for every
  configuration.
\<close>

definition example_constants :: constants where
  "example_constants =
     \<lparr>DEFAULT_LANGUAGE = ''en'', DEFAULT_CURRENCY = ''USD'', DEFAULT_NATIONALITY = ''US'',
      VALID_LANGUAGES = [''en'', ''fr'', ''de'', ''es''],
      VALID_CURRENCIES = [''EUR'', ''USD'', ''GBP''],
      VALID_NATIONALITIES = [''US'', ''GB'', ''CA''],
      CHILD_AGE_LIMIT = 5, ALLOWED_CHILD_COUNT_PER_ROOM = 2, ALLOWED_ROOM_GUEST_COUNT = 4,
      EXCHANGE_RATES = map_of [((''USD'', ''EUR''), FLit ''0.85''), ((''USD'', ''GBP''), FLit ''0.73'')],
      NET_PRICE = FLit ''132.42'', MARKUP_PERCENTAGE = FLit ''3.2''\<rparr>"

definition leaf :: "string \<Rightarrow> string \<Rightarrow> element" where
  "leaf t x = Element t [] (Some x) []"

definition pax_elem :: "string \<Rightarrow> element" where
  "pax_elem a = Element ''Pax'' [(''age'', a)] None []"

definition paxes_elem :: "string list \<Rightarrow> element" where
  "paxes_elem ages = Element ''Paxes'' [] None (map pax_elem ages)"

definition configuration_elem :: "(string \<times> string) list \<Rightarrow> element" where
  "configuration_elem attrs =
     Element ''Configuration'' [] None
       [Element ''Parameters'' [] None [Element ''Parameter'' attrs None []]]"

definition test_attrs :: "(string \<times> string) list" where
  "test_attrs = [(''password'', ''testpass''), (''username'', ''testuser''), (''CompanyID'', ''123456'')]"

text \<open>
  The request of \<^verbatim>\<open>test_parser.py\<close>, with the parts the tests vary as arguments: the
  credential attributes, the quota element, the date elements and the occupancy groups.
\<close>

definition request_doc ::
  "(string \<times> string) list \<Rightarrow> element list \<Rightarrow> element list \<Rightarrow> element list \<Rightarrow> element" where
  "request_doc attrs quota dates groups =
     Element ''AvailRQ'' [] None
       ([leaf ''timeoutMilliseconds'' ''25000'',
         Element ''source'' [] None [leaf ''languageCode'' ''en'']]
        @ quota @
        [configuration_elem attrs,
         leaf ''SearchType'' ''Multiple'']
        @ dates @
        [leaf ''Currency'' ''USD'',
         leaf ''Nationality'' ''US'',
         Element ''AvailDestinations'' [] None
           [leaf ''Destination'' ''New York'', leaf ''Destination'' ''Los Angeles'']]
        @ groups)"

definition quota_20 :: "element list" where
  "quota_20 = [leaf ''optionsQuota'' ''20'']"

definition dates_elems :: "string \<Rightarrow> string \<Rightarrow> element list" where
  "dates_elems s e = [leaf ''StartDate'' s, leaf ''EndDate'' e]"

definition valid_xml :: "string \<Rightarrow> string \<Rightarrow> element" where
  "valid_xml s e = request_doc test_attrs quota_20 (dates_elems s e) [paxes_elem [''30'', ''5'']]"

text \<open>The clock at noon of 23/02/2025 (ordinal 739305).\<close>

definition noon_23_02_2025 :: datetime where
  "noon_23_02_2025 = \<lparr>day_ordinal = 739305, usec_of_day = 43200000000\<rparr>"

definition example_env :: env where
  "example_env = \<lparr>today = noon_23_02_2025, now_stamp = ''20250223120000'',
                   uuid4 = ''1b4e28ba-2fa1-11d2-883f-0016d3cca427''\<rparr>"

section \<open>Auxiliary facts\<close>

lemma strptime_midnight: "strptime x = Inr d \<Longrightarrow> usec_of_day d = 0"
  by (auto simp: strptime_def split: option.splits if_splits)

lemma delta_days_midnight:
  "usec_of_day a = 0 \<Longrightarrow> usec_of_day b = 0 \<Longrightarrow> delta_days a b = day_ordinal a - day_ordinal b"
  by (simp add: delta_days_def)

lemma validate_dates_cases:
  assumes "strptime s = Inr start" "strptime e = Inr end" "add_days clock 2 = Inr limit"
  shows "validate_dates clock s e =
     (if dt_less start limit then Inl (ValueError ''StartDate must be at least 2 days from today'')
      else if day_ordinal end - day_ordinal start < 3
        then Inl (ValueError ''Stay duration must be at least 3 nights'')
      else Inr (start, end))"
  using assms strptime_midnight[OF assms(1)] strptime_midnight[OF assms(2)]
  by (simp add: validate_dates_def delta_days_midnight)

lemma pax_loop_built:
  "pax_loop c ps pl cc = Inr (pl', cc') \<Longrightarrow>
     \<exists>new. pl' = pl @ new \<and> cc' = cc + children_in new \<and> list_all2 (built_from c) ps new"
proof (induction ps arbitrary: pl cc)
  case Nil
  then show ?case by (simp add: children_in_def)
next
  case (Cons p ps)
  from Cons.prems obtain a where a: "py_int (get p ''age'' ''0'') = Inr a"
    by (cases "py_int (get p ''age'' ''0'')") auto
  let ?x = "\<lparr>pax_type = classify c a, age = a\<rparr>"
  from Cons.prems a have
    "pax_loop c ps (pl @ [?x]) (if classify c a = ''Child'' then cc + 1 else cc) = Inr (pl', cc')"
    by (simp add: classify_def Let_def)
  from Cons.IH[OF this] obtain new where new: "pl' = (pl @ [?x]) @ new"
    "cc' = (if classify c a = ''Child'' then cc + 1 else cc) + children_in new"
    "list_all2 (built_from c) ps new" by blast
  have "pl' = pl @ (?x # new)" using new(1) by simp
  moreover have "cc' = cc + children_in (?x # new)"
    using new(2) by (simp add: children_in_def)
  moreover have "list_all2 (built_from c) (p # ps) (?x # new)"
    using new(3) a by (simp add: built_from_def)
  ultimately show ?case by blast
qed

lemma pax_loop_room:
  assumes "pax_loop c ps [] 0 = Inr (pl, cc)"
  shows "cc = children_in pl" and "list_all2 (built_from c) ps pl"
  using pax_loop_built[OF assms] by auto

lemma built_child_or_adult:
  "list_all2 (built_from c) ps pl \<Longrightarrow> children_in pl + adults_in pl = int (length pl)"
proof (induction rule: list_all2_induct)
  case Nil
  show ?case by (simp add: children_in_def adults_in_def)
next
  case (Cons p ps x pl)
  then show ?case
    by (auto simp: children_in_def adults_in_def built_from_def classify_def)
qed

lemma all_children_iff:
  "list_all (\<lambda>p. pax_type p = ''Child'') pl \<longleftrightarrow> children_in pl = int (length pl)"
proof -
  have "length (filter P pl) = length pl \<longleftrightarrow> list_all P pl" for P :: "pax \<Rightarrow> bool"
    by (metis filter_id_conv length_filter_less less_irrefl list_all_iff)
  then show ?thesis by (auto simp: children_in_def)
qed

lemma validate_room_built:
  assumes "pax_loop c ps [] 0 = Inr (pl, cc)"
  shows "validate_room c pl cc =
     (if children_in pl > ALLOWED_CHILD_COUNT_PER_ROOM c
        then Inl (ValueError ''Exceeded maximum allowed children per room'')
      else if int (length pl) > ALLOWED_ROOM_GUEST_COUNT c
        then Inl (ValueError ''Exceeded maximum allowed guests per room'')
      else if children_in pl \<ge> 1 \<and> adults_in pl = 0
        then Inl (ValueError ''A child must have at least one accompanying adult in the same room'')
      else Inr ())"
proof -
  have cc: "cc = children_in pl" using pax_loop_room(1)[OF assms] .
  have "children_in pl + adults_in pl = int (length pl)"
    using built_child_or_adult[OF pax_loop_room(2)[OF assms]] .
  then have "list_all (\<lambda>p. pax_type p = ''Child'') pl \<longleftrightarrow> adults_in pl = 0"
    unfolding all_children_iff by linarith
  then show ?thesis
    unfolding validate_room_def cc by auto
qed

lemma rooms_loop_append:
  "rooms_loop c (xs @ ys) acc =
     (case rooms_loop c xs acc of Inl e \<Rightarrow> Inl e | Inr rs \<Rightarrow> rooms_loop c ys rs)"
  by (induction xs arbitrary: acc) (auto split: sum.splits prod.splits)

lemma rooms_loop_built:
  "rooms_loop c gs acc = Inr rs \<Longrightarrow>
     \<exists>new. rs = acc @ new \<and>
       list_all2 (\<lambda>g room. list_all2 (built_from c) (findall [Descendant ''Pax''] g) room) gs new"
proof (induction gs arbitrary: acc)
  case Nil
  then show ?case by simp
next
  case (Cons g gs)
  from Cons.prems obtain pl cc where
    pl: "pax_loop c (findall [Descendant ''Pax''] g) [] 0 = Inr (pl, cc)"
    and rest: "rooms_loop c gs (acc @ [pl]) = Inr rs"
    by (auto split: sum.splits prod.splits)
  from Cons.IH[OF rest] obtain new where new: "rs = (acc @ [pl]) @ new"
    "list_all2 (\<lambda>g room. list_all2 (built_from c) (findall [Descendant ''Pax''] g) room) gs new"
    by blast
  have "rs = acc @ (pl # new)" using new(1) by simp
  moreover have
    "list_all2 (\<lambda>g room. list_all2 (built_from c) (findall [Descendant ''Pax''] g) room)
       (g # gs) (pl # new)"
    using new(2) pax_loop_room(2)[OF pl] by simp
  ultimately show ?case by blast
qed

lemma parse_xml_staged:
  "parse_xml c clock root =
     (case extract_fields c root of
        Inl e \<Rightarrow> Inl e
      | Inr (lang, quota, cur, natl, s, e) \<Rightarrow>
     (case parse_rooms c root of
        Inl e \<Rightarrow> Inl e
      | Inr rs \<Rightarrow>
     (case validate_basic_fields c lang cur natl quota of
        Inl e \<Rightarrow> Inl e
      | Inr _ \<Rightarrow>
     (case validate_dates clock s e of
        Inl e \<Rightarrow> Inl e
      | Inr (start, end) \<Rightarrow>
          Inr \<lparr>language = lang, options_quota = quota, currency = cur, nationality = natl,
               start_date = start, end_date = end, ocg = var_ocg,
               rooms = (if rs \<noteq> [] then Some rs else None)\<rparr>))))"
proof (cases "py_int (findtext [Descendant ''optionsQuota''] ''20'' root)")
  case (Inl e)
  then show ?thesis by (simp add: parse_xml_def extract_fields_def)
next
  case quota: (Inr q)
  show ?thesis
  proof (cases "find parameter_path root")
    case None
    with quota show ?thesis by (simp add: parse_xml_def extract_fields_def)
  next
    case pe: (Some pe)
    show ?thesis
    proof (cases "check_params pe required_params")
      case (Inl e)
      with quota pe show ?thesis by (simp add: parse_xml_def extract_fields_def)
    next
      case (Inr u)
      with quota pe show ?thesis by (simp add: parse_xml_def extract_fields_def Let_def)
    qed
  qed
qed


lemma py_int_20: "py_int ''20'' = Inr 20"
  by code_simp

lemma quota_default:
  "find [Descendant ''optionsQuota''] root = None \<Longrightarrow>
     py_int (findtext [Descendant ''optionsQuota''] ''20'' root) = Inr 20"
  by (simp add: findtext_def findtext_none_def py_int_20)

lemma parse_xml_quota:
  assumes "parse_xml c clock root = Inr r"
  shows "py_int (findtext [Descendant ''optionsQuota''] ''20'' root) = Inr (options_quota r)"
    and "options_quota r \<le> 50"
proof -
  from assms obtain lang quota cur natl s e where
    ex: "extract_fields c root = Inr (lang, quota, cur, natl, s, e)"
    and vb: "validate_basic_fields c lang cur natl quota = Inr ()"
    and q: "options_quota r = quota"
    by (auto simp: parse_xml_staged split: sum.splits prod.splits)
  from ex show "py_int (findtext [Descendant ''optionsQuota''] ''20'' root) = Inr (options_quota r)"
    unfolding q by (auto simp: extract_fields_def Let_def split: sum.splits option.splits)
  from vb show "options_quota r \<le> 50"
    unfolding q by (auto simp: validate_basic_fields_def split: if_splits)
qed

lemma check_params_required:
  "check_params pe required_params =
     (if \<not> has_attrib pe ''password''
        then Inl (ValueError ''Missing required parameter: password'')
      else if \<not> has_attrib pe ''username''
        then Inl (ValueError ''Missing required parameter: username'')
      else if \<not> has_attrib pe ''CompanyID''
        then Inl (ValueError ''Missing required parameter: CompanyID'')
      else Inr ())"
  by (simp add: required_params_def)

lemma parse_xml_no_parameter:
  "py_int (findtext [Descendant ''optionsQuota''] ''20'' root) = Inr q \<Longrightarrow>
   find parameter_path root = None \<Longrightarrow>
     parse_xml c clock root = Inl (ValueError ''Missing required <Parameter> element'')"
  by (simp add: parse_xml_def)

lemma parse_xml_bad_parameter:
  "py_int (findtext [Descendant ''optionsQuota''] ''20'' root) = Inr q \<Longrightarrow>
   find parameter_path root = Some pe \<Longrightarrow> check_params pe required_params = Inl e \<Longrightarrow>
     parse_xml c clock root = Inl e"
  by (simp add: parse_xml_def)

lemma process_request_staged:
  "process_request c ev root =
     (case extract_fields c root of
        Inl e \<Rightarrow> Inl e
      | Inr (lang, quota, cur, natl, s, d) \<Rightarrow>
     (case parse_rooms c root of
        Inl e \<Rightarrow> Inl e
      | Inr rs \<Rightarrow>
     (case validate_basic_fields c lang cur natl quota of
        Inl e \<Rightarrow> Inl e
      | Inr _ \<Rightarrow>
     (case validate_dates (today ev) s d of
        Inl e \<Rightarrow> Inl e
      | Inr (start, fin) \<Rightarrow>
          Inr (generate_response c ev
            \<lparr>language = lang, options_quota = quota, currency = cur, nationality = natl,
             start_date = start, end_date = fin, ocg = var_ocg,
             rooms = (if rs \<noteq> [] then Some rs else None)\<rparr>)))))"
  by (simp add: process_request_def parse_xml_staged split: sum.splits prod.splits)

lemma py_int_0: "py_int ''0'' = Inr 0"
  by code_simp

lemma built_from_facts:
  assumes "built_from c p x"
  shows "py_int (get p ''age'' ''0'') = Inr (age x)"
    and "\<not> has_attrib p ''age'' \<Longrightarrow> age x = 0"
    and "pax_type x = ''Child'' \<longleftrightarrow> age x \<le> CHILD_AGE_LIMIT c"
    and "pax_type x = ''Adult'' \<longleftrightarrow> \<not> age x \<le> CHILD_AGE_LIMIT c"
proof -
  from assms show a: "py_int (get p ''age'' ''0'') = Inr (age x)"
    by (simp add: built_from_def)
  show "age x = 0" if "\<not> has_attrib p ''age''"
    using that a by (simp add: has_attrib_def get_def py_int_0)
  from assms show "pax_type x = ''Child'' \<longleftrightarrow> age x \<le> CHILD_AGE_LIMIT c"
    by (simp add: built_from_def classify_def)
  from assms show "pax_type x = ''Adult'' \<longleftrightarrow> \<not> age x \<le> CHILD_AGE_LIMIT c"
    by (simp add: built_from_def classify_def)
qed

lemma parse_rooms_built:
  "parse_rooms c root = Inr rs \<Longrightarrow>
     list_all2 (\<lambda>g room. list_all2 (built_from c) (findall [Descendant ''Pax''] g) room)
       (findall [Descendant ''Paxes''] root) rs"
  using rooms_loop_built[of c "findall [Descendant ''Paxes''] root" "[]" rs]
  by (simp add: parse_rooms_def)

lemma pax_loop_empty: "pax_loop c [] [] 0 = Inr ([], 0)"
  by simp

lemma validate_room_empty:
  "0 \<le> ALLOWED_CHILD_COUNT_PER_ROOM c \<Longrightarrow> 0 \<le> ALLOWED_ROOM_GUEST_COUNT c \<Longrightarrow>
     validate_room c [] 0 = Inr ()"
  by (simp add: validate_room_def)

lemma parse_xml_rooms:
  assumes "parse_xml c clock root = Inr r"
  shows "\<exists>rs. parse_rooms c root = Inr rs \<and> rooms r = (if rs = [] then None else Some rs)"
proof -
  from assms obtain rs where rs: "parse_rooms c root = Inr rs"
    and r: "rooms r = (if rs \<noteq> [] then Some rs else None)"
    by (auto simp: parse_xml_staged split: sum.splits prod.splits)
  show ?thesis using rs r by auto
qed

section \<open>The claims\<close>

text \<open>
  C1 (lead-time check). The claim: a start date equal to the current date is rejected, and
  a start date equal to the current date plus 2 days is accepted, the comparison being
  between calendar dates. The source compares the start date, a midnight, with
  \<^verbatim>\<open>datetime.today() + timedelta(days=2)\<close>, which carries the time of day of the call. At
  noon of 23/02/2025 the request of the tests with StartDate 25/02/2025, exactly two days
  ahead, and EndDate 28/02/2025 is rejected with the lead-time message.
\<close>

theorem C1_start_two_days_ahead_rejected:
  "strptime (Some ''25/02/2025'') =
     Inr \<lparr>day_ordinal = day_ordinal (today example_env) + 2, usec_of_day = 0\<rparr> \<and>
   process_request example_constants example_env (valid_xml ''25/02/2025'' ''28/02/2025'') =
     Inl (ValueError ''StartDate must be at least 2 days from today'')"
  by code_simp

text \<open>
  C4 (stay-length check). When both dates parse, the lead-time check decides first: if it
  fails, its error is the result whatever the stay length. When it passes, the request is
  rejected with the stay-length error exactly when the end day minus the start day is
  less than 3, and accepted with the two parsed dates otherwise, in particular at 3.
\<close>

theorem C4_stay_length:
  "strptime s = Inr start \<Longrightarrow> strptime e = Inr end \<Longrightarrow> add_days clock 2 = Inr limit \<Longrightarrow>
     (dt_less start limit \<longrightarrow>
        validate_dates clock s e =
          Inl (ValueError ''StartDate must be at least 2 days from today'')) \<and>
     (\<not> dt_less start limit \<longrightarrow> day_ordinal end - day_ordinal start < 3 \<longrightarrow>
        validate_dates clock s e = Inl (ValueError ''Stay duration must be at least 3 nights'')) \<and>
     (\<not> dt_less start limit \<longrightarrow> day_ordinal end - day_ordinal start \<ge> 3 \<longrightarrow>
        validate_dates clock s e = Inr (start, end))"
  by (simp add: validate_dates_cases)

theorem C4_stay_length_witness:
  "validate_dates noon_23_02_2025 (Some ''26/02/2025'') (Some ''01/03/2025'') =
     Inr (\<lparr>day_ordinal = 739308, usec_of_day = 0\<rparr>, \<lparr>day_ordinal = 739311, usec_of_day = 0\<rparr>) \<and>
   validate_dates noon_23_02_2025 (Some ''26/02/2025'') (Some ''28/02/2025'') =
     Inl (ValueError ''Stay duration must be at least 3 nights'') \<and>
   validate_dates noon_23_02_2025 (Some ''24/02/2025'') (Some ''28/02/2025'') =
     Inl (ValueError ''StartDate must be at least 2 days from today'')"
proof -
  have s1: "strptime (Some ''26/02/2025'') = Inr \<lparr>day_ordinal = 739308, usec_of_day = 0\<rparr>"
    by code_simp
  have s2: "strptime (Some ''24/02/2025'') = Inr \<lparr>day_ordinal = 739306, usec_of_day = 0\<rparr>"
    by code_simp
  have e1: "strptime (Some ''01/03/2025'') = Inr \<lparr>day_ordinal = 739311, usec_of_day = 0\<rparr>"
    by code_simp
  have e2: "strptime (Some ''28/02/2025'') = Inr \<lparr>day_ordinal = 739310, usec_of_day = 0\<rparr>"
    by code_simp
  have l: "add_days noon_23_02_2025 2 = Inr \<lparr>day_ordinal = 739307, usec_of_day = 43200000000\<rparr>"
    by code_simp
  show ?thesis
    using C4_stay_length[OF s1 e1 l] C4_stay_length[OF s1 e2 l] C4_stay_length[OF s2 e2 l]
    by (simp add: dt_less_def)
qed

text \<open>
  C7 (required dates). The claim: a document without the StartDate or the EndDate element
  is rejected with a missing-field error naming the field. The source passes the \<^verbatim>\<open>None\<close>
  that \<^verbatim>\<open>findtext\<close> returns to \<^verbatim>\<open>strptime\<close>: the request of the tests without its StartDate,
  and the same request without its EndDate, both end with the \<^verbatim>\<open>TypeError\<close> of \<^verbatim>\<open>strptime\<close>,
  which names no field.
\<close>

theorem C7_missing_date_type_error:
  "findall [Descendant ''StartDate'']
     (request_doc test_attrs quota_20 [leaf ''EndDate'' ''01/03/2025''] [paxes_elem [''30'', ''5'']]) = [] \<and>
   process_request example_constants example_env
     (request_doc test_attrs quota_20 [leaf ''EndDate'' ''01/03/2025''] [paxes_elem [''30'', ''5'']]) =
     Inl StrptimeTypeError \<and>
   findall [Descendant ''EndDate'']
     (request_doc test_attrs quota_20 [leaf ''StartDate'' ''26/02/2025''] [paxes_elem [''30'', ''5'']]) = [] \<and>
   process_request example_constants example_env
     (request_doc test_attrs quota_20 [leaf ''StartDate'' ''26/02/2025''] [paxes_elem [''30'', ''5'']]) =
     Inl StrptimeTypeError"
  by code_simp

text \<open>
  C3 (basic-field validation). The membership checks run in the order language, currency,
  nationality, quota, and the first that fails decides the error: an invalid language
  wins over every later field, an invalid nationality is reported as
  \<open>Invalid nationality: <value>\<close> only when language and currency are valid, and the quota
  decides when all three are valid. A document without an optionsQuota element has quota
  20; a parsed record carries the integer value of the element unchanged, and that value
  is at most 50; a value above 50 never yields a record.
\<close>

theorem C3_basic_fields:
  "(lang \<notin> set (VALID_LANGUAGES c) \<longrightarrow>
      validate_basic_fields c lang cur natl quota =
        Inl (ValueError (''Invalid language: '' @ lang))) \<and>
   (lang \<in> set (VALID_LANGUAGES c) \<longrightarrow> cur \<notin> set (VALID_CURRENCIES c) \<longrightarrow>
      validate_basic_fields c lang cur natl quota =
        Inl (ValueError (''Invalid currency: '' @ cur))) \<and>
   (lang \<in> set (VALID_LANGUAGES c) \<longrightarrow> cur \<in> set (VALID_CURRENCIES c) \<longrightarrow>
    natl \<notin> set (VALID_NATIONALITIES c) \<longrightarrow>
      validate_basic_fields c lang cur natl quota =
        Inl (ValueError (''Invalid nationality: '' @ natl))) \<and>
   (lang \<in> set (VALID_LANGUAGES c) \<longrightarrow> cur \<in> set (VALID_CURRENCIES c) \<longrightarrow>
    natl \<in> set (VALID_NATIONALITIES c) \<longrightarrow>
      validate_basic_fields c lang cur natl quota =
        (if quota > 50 then Inl (ValueError ''optionsQuota cannot be greater than 50'')
         else Inr ())) \<and>
   (find [Descendant ''optionsQuota''] root = None \<longrightarrow>
      py_int (findtext [Descendant ''optionsQuota''] ''20'' root) = Inr 20) \<and>
   (parse_xml c clock root = Inr r \<longrightarrow>
      py_int (findtext [Descendant ''optionsQuota''] ''20'' root) = Inr (options_quota r) \<and>
      options_quota r \<le> 50) \<and>
   (py_int (findtext [Descendant ''optionsQuota''] ''20'' root) = Inr q \<longrightarrow> q > 50 \<longrightarrow>
      (\<exists>e. parse_xml c clock root = Inl e))"
proof -
  have vb: "validate_basic_fields c lang cur natl quota =
      (if lang \<notin> set (VALID_LANGUAGES c) then Inl (ValueError (''Invalid language: '' @ lang))
       else if cur \<notin> set (VALID_CURRENCIES c) then Inl (ValueError (''Invalid currency: '' @ cur))
       else if natl \<notin> set (VALID_NATIONALITIES c)
         then Inl (ValueError (''Invalid nationality: '' @ natl))
       else if quota > 50 then Inl (ValueError ''optionsQuota cannot be greater than 50'')
       else Inr ())"
    by (simp add: validate_basic_fields_def)
  have rej: "\<exists>e. parse_xml c clock root = Inl e"
    if "py_int (findtext [Descendant ''optionsQuota''] ''20'' root) = Inr q" "q > 50"
  proof (cases "parse_xml c clock root")
    case (Inl e)
    then show ?thesis by blast
  next
    case (Inr r)
    from parse_xml_quota[OF Inr] that show ?thesis by simp
  qed
  show ?thesis
    using vb rej parse_xml_quota[of c clock root r] quota_default[of root] by auto
qed

theorem C3_basic_fields_witness:
  "validate_basic_fields example_constants ''xx'' ''XYZ'' ''XX'' 60 =
     Inl (ValueError ''Invalid language: xx'') \<and>
   validate_basic_fields example_constants ''en'' ''XYZ'' ''XX'' 60 =
     Inl (ValueError ''Invalid currency: XYZ'') \<and>
   validate_basic_fields example_constants ''en'' ''USD'' ''XX'' 60 =
     Inl (ValueError ''Invalid nationality: XX'') \<and>
   validate_basic_fields example_constants ''en'' ''USD'' ''US'' 60 =
     Inl (ValueError ''optionsQuota cannot be greater than 50'') \<and>
   validate_basic_fields example_constants ''en'' ''USD'' ''US'' 30 = Inr () \<and>
   py_int (findtext [Descendant ''optionsQuota''] ''20''
     (request_doc test_attrs [] (dates_elems ''26/02/2025'' ''01/03/2025'') [])) = Inr 20 \<and>
   py_int (findtext [Descendant ''optionsQuota''] ''20''
     (request_doc test_attrs [leaf ''optionsQuota'' ''30'']
        (dates_elems ''26/02/2025'' ''01/03/2025'') [])) = Inr 30 \<and>
   (\<exists>e. parse_xml example_constants noon_23_02_2025
     (request_doc test_attrs [leaf ''optionsQuota'' ''60'']
        (dates_elems ''26/02/2025'' ''01/03/2025'') []) = Inl e)"
proof -
  let ?c = example_constants
  have m: "''xx'' \<notin> set (VALID_LANGUAGES ?c)" "''en'' \<in> set (VALID_LANGUAGES ?c)"
    "''XYZ'' \<notin> set (VALID_CURRENCIES ?c)" "''USD'' \<in> set (VALID_CURRENCIES ?c)"
    "''XX'' \<notin> set (VALID_NATIONALITIES ?c)" "''US'' \<in> set (VALID_NATIONALITIES ?c)"
    by (simp_all add: example_constants_def)
  have absent: "find [Descendant ''optionsQuota'']
      (request_doc test_attrs [] (dates_elems ''26/02/2025'' ''01/03/2025'') []) = None"
    by code_simp
  have ok: "parse_xml ?c noon_23_02_2025
      (request_doc test_attrs [leaf ''optionsQuota'' ''30'']
        (dates_elems ''26/02/2025'' ''01/03/2025'') []) =
      Inr \<lparr>language = ''en'', options_quota = 30, currency = ''USD'', nationality = ''US'',
           start_date = \<lparr>day_ordinal = 739308, usec_of_day = 0\<rparr>,
           end_date = \<lparr>day_ordinal = 739311, usec_of_day = 0\<rparr>,
           ocg = ''OCG_SECRET'', rooms = None\<rparr>"
    by code_simp
  have big: "py_int (findtext [Descendant ''optionsQuota''] ''20''
      (request_doc test_attrs [leaf ''optionsQuota'' ''60'']
        (dates_elems ''26/02/2025'' ''01/03/2025'') [])) = Inr 60"
    by code_simp
  show ?thesis
    using m absent ok big
      C3_basic_fields[where c = "?c" and lang = "''xx''" and cur = "''XYZ''" and natl = "''XX''"
        and quota = 60
        and root = "request_doc test_attrs [] (dates_elems ''26/02/2025'' ''01/03/2025'') []"]
      C3_basic_fields[where c = "?c" and lang = "''en''" and cur = "''XYZ''" and natl = "''XX''"
        and quota = 60 and clock = noon_23_02_2025
        and root = "request_doc test_attrs [leaf ''optionsQuota'' ''30'']
          (dates_elems ''26/02/2025'' ''01/03/2025'') []"]
      C3_basic_fields[where c = "?c" and lang = "''en''" and cur = "''USD''" and natl = "''XX''"
        and quota = 60 and clock = noon_23_02_2025 and q = 60
        and root = "request_doc test_attrs [leaf ''optionsQuota'' ''60'']
          (dates_elems ''26/02/2025'' ''01/03/2025'') []"]
      C3_basic_fields[where c = "?c" and lang = "''en''" and cur = "''USD''" and natl = "''US''"
        and quota = 60]
      C3_basic_fields[where c = "?c" and lang = "''en''" and cur = "''USD''" and natl = "''US''"
        and quota = 30]
    by simp
qed

text \<open>
  C2 (occupancy validation). Take the occupancy groups of a document in document order,
  one of them \<open>g\<close>, such that the groups before it were accepted and the guests of \<open>g\<close> were
  built (every age is an integer). Then the room of \<open>g\<close> is checked in the order children,
  guests, unaccompanied child: more children than allowed ends the extraction with
  \<open>Exceeded maximum allowed children per room\<close>; otherwise more guests than allowed ends
  it with \<open>Exceeded maximum allowed guests per room\<close>; otherwise a room with a child and
  no adult ends it with the unaccompanied-child error. In each case the result is the
  error alone: the rooms accepted before are not returned. Otherwise the room is accepted
  and the extraction goes on with the groups after it.
\<close>

theorem C2_occupancy:
  "findall [Descendant ''Paxes''] root = pre @ g # post \<Longrightarrow>
   rooms_loop c pre [] = Inr rs \<Longrightarrow>
   pax_loop c (findall [Descendant ''Pax''] g) [] 0 = Inr (pl, cc) \<Longrightarrow>
     (children_in pl > ALLOWED_CHILD_COUNT_PER_ROOM c \<longrightarrow>
        parse_rooms c root = Inl (ValueError ''Exceeded maximum allowed children per room'')) \<and>
     (children_in pl \<le> ALLOWED_CHILD_COUNT_PER_ROOM c \<longrightarrow>
      int (length pl) > ALLOWED_ROOM_GUEST_COUNT c \<longrightarrow>
        parse_rooms c root = Inl (ValueError ''Exceeded maximum allowed guests per room'')) \<and>
     (children_in pl \<le> ALLOWED_CHILD_COUNT_PER_ROOM c \<longrightarrow>
      int (length pl) \<le> ALLOWED_ROOM_GUEST_COUNT c \<longrightarrow>
      children_in pl \<ge> 1 \<longrightarrow> adults_in pl = 0 \<longrightarrow>
        parse_rooms c root =
          Inl (ValueError ''A child must have at least one accompanying adult in the same room'')) \<and>
     (children_in pl \<le> ALLOWED_CHILD_COUNT_PER_ROOM c \<longrightarrow>
      int (length pl) \<le> ALLOWED_ROOM_GUEST_COUNT c \<longrightarrow>
      (children_in pl = 0 \<or> adults_in pl \<ge> 1) \<longrightarrow>
        parse_rooms c root = rooms_loop c post (rs @ [pl]))"
proof -
  assume gs: "findall [Descendant ''Paxes''] root = pre @ g # post"
    and pre: "rooms_loop c pre [] = Inr rs"
    and pl: "pax_loop c (findall [Descendant ''Pax''] g) [] 0 = Inr (pl, cc)"
  have step: "parse_rooms c root =
      (case validate_room c pl cc of Inl e \<Rightarrow> Inl e | Inr u \<Rightarrow> rooms_loop c post (rs @ [pl]))"
    by (simp add: parse_rooms_def gs rooms_loop_append pre pl)
  have "0 \<le> adults_in pl" by (simp add: adults_in_def)
  then show ?thesis
    unfolding step validate_room_built[OF pl] by auto
qed

theorem C2_occupancy_witness:
  "parse_rooms example_constants
     (request_doc test_attrs [] [] [paxes_elem [''30'', ''5''], paxes_elem [''3'', ''4'', ''5'', ''25'']]) =
     Inl (ValueError ''Exceeded maximum allowed children per room'') \<and>
   parse_rooms example_constants
     (request_doc test_attrs [] [] [paxes_elem [''30'', ''5''], paxes_elem [''30'', ''25'', ''20'', ''15'', ''10'']]) =
     Inl (ValueError ''Exceeded maximum allowed guests per room'') \<and>
   parse_rooms example_constants
     (request_doc test_attrs [] [] [paxes_elem [''30'', ''5''], paxes_elem [''4'']]) =
     Inl (ValueError ''A child must have at least one accompanying adult in the same room'') \<and>
   parse_rooms example_constants
     (request_doc test_attrs [] [] [paxes_elem [''30'', ''5''], paxes_elem [''2'', ''1'', ''29'']]) =
     Inr [[\<lparr>pax_type = ''Adult'', age = 30\<rparr>, \<lparr>pax_type = ''Child'', age = 5\<rparr>],
          [\<lparr>pax_type = ''Child'', age = 2\<rparr>, \<lparr>pax_type = ''Child'', age = 1\<rparr>,
           \<lparr>pax_type = ''Adult'', age = 29\<rparr>]]"
proof -
  let ?c = example_constants
  let ?g0 = "paxes_elem [''30'', ''5'']"
  let ?r0 = "[\<lparr>pax_type = ''Adult'', age = 30\<rparr>, \<lparr>pax_type = ''Child'', age = 5\<rparr>]"
  have g1: "findall [Descendant ''Paxes'']
      (request_doc test_attrs [] [] [?g0, paxes_elem [''3'', ''4'', ''5'', ''25'']]) =
      [?g0] @ paxes_elem [''3'', ''4'', ''5'', ''25''] # []"
    by code_simp
  have g2: "findall [Descendant ''Paxes'']
      (request_doc test_attrs [] [] [?g0, paxes_elem [''30'', ''25'', ''20'', ''15'', ''10'']]) =
      [?g0] @ paxes_elem [''30'', ''25'', ''20'', ''15'', ''10''] # []"
    by code_simp
  have g3: "findall [Descendant ''Paxes'']
      (request_doc test_attrs [] [] [?g0, paxes_elem [''4'']]) =
      [?g0] @ paxes_elem [''4''] # []"
    by code_simp
  have g4: "findall [Descendant ''Paxes'']
      (request_doc test_attrs [] [] [?g0, paxes_elem [''2'', ''1'', ''29'']]) =
      [?g0] @ paxes_elem [''2'', ''1'', ''29''] # []"
    by code_simp
  have pre: "rooms_loop ?c [?g0] [] = Inr [?r0]"
    by code_simp
  have p1: "pax_loop ?c (findall [Descendant ''Pax''] (paxes_elem [''3'', ''4'', ''5'', ''25''])) [] 0 =
      Inr ([\<lparr>pax_type = ''Child'', age = 3\<rparr>, \<lparr>pax_type = ''Child'', age = 4\<rparr>,
            \<lparr>pax_type = ''Child'', age = 5\<rparr>, \<lparr>pax_type = ''Adult'', age = 25\<rparr>], 3)"
    by code_simp
  have p2: "pax_loop ?c (findall [Descendant ''Pax''] (paxes_elem [''30'', ''25'', ''20'', ''15'', ''10''])) [] 0 =
      Inr ([\<lparr>pax_type = ''Adult'', age = 30\<rparr>, \<lparr>pax_type = ''Adult'', age = 25\<rparr>,
            \<lparr>pax_type = ''Adult'', age = 20\<rparr>, \<lparr>pax_type = ''Adult'', age = 15\<rparr>,
            \<lparr>pax_type = ''Adult'', age = 10\<rparr>], 0)"
    by code_simp
  have p3: "pax_loop ?c (findall [Descendant ''Pax''] (paxes_elem [''4''])) [] 0 =
      Inr ([\<lparr>pax_type = ''Child'', age = 4\<rparr>], 1)"
    by code_simp
  have p4: "pax_loop ?c (findall [Descendant ''Pax''] (paxes_elem [''2'', ''1'', ''29''])) [] 0 =
      Inr ([\<lparr>pax_type = ''Child'', age = 2\<rparr>, \<lparr>pax_type = ''Child'', age = 1\<rparr>,
            \<lparr>pax_type = ''Adult'', age = 29\<rparr>], 2)"
    by code_simp
  have lim: "ALLOWED_CHILD_COUNT_PER_ROOM ?c = 2" "ALLOWED_ROOM_GUEST_COUNT ?c = 4"
    by (simp_all add: example_constants_def)
  show ?thesis
    using C2_occupancy[OF g1 pre p1] C2_occupancy[OF g2 pre p2] C2_occupancy[OF g3 pre p3]
      C2_occupancy[OF g4 pre p4]
    by (simp add: lim children_in_def adults_in_def)
qed

text \<open>
  C6 (credential block), as the claim states it: the three attributes are password,
  username and companyID, and an element carrying all three passes. The source requires
  the attribute \<open>CompanyID\<close>, and attribute names are case-sensitive: the request of the
  tests with the attributes password, username and companyID is rejected for a missing
  \<open>CompanyID\<close>. And the claim speaks of every document: one without the element whose
  optionsQuota text is no integer fails earlier, with the error of \<^verbatim>\<open>int()\<close>.
\<close>

theorem C6_lowercase_companyID_counterexample:
  "map_of [(''password'', ''testpass''), (''username'', ''testuser''), (''companyID'', ''123456'')]
     ''companyID'' = Some ''123456'' \<and>
   parse_xml example_constants noon_23_02_2025
     (request_doc [(''password'', ''testpass''), (''username'', ''testuser''), (''companyID'', ''123456'')]
        quota_20 (dates_elems ''26/02/2025'' ''01/03/2025'') [paxes_elem [''30'', ''5'']]) =
     Inl (ValueError ''Missing required parameter: CompanyID'') \<and>
   find parameter_path (Element ''AvailRQ'' [] None [leaf ''optionsQuota'' ''abc'']) = None \<and>
   parse_xml example_constants noon_23_02_2025
     (Element ''AvailRQ'' [] None [leaf ''optionsQuota'' ''abc'']) = Inl (IntValueError ''abc'')"
  by code_simp

text \<open>
  C6 as amended. For a document whose optionsQuota text is an integer (the quota is
  converted before the credential block is looked at): without an element at
  \<open>Configuration/Parameters/Parameter\<close> the request fails with the missing-element error;
  with one, the first absent attribute among password, username, CompanyID, in this
  order, is named by the error; and with all three present the check passes and the
  field extraction succeeds.
\<close>

theorem C6_credential_block:
  "py_int (findtext [Descendant ''optionsQuota''] ''20'' root) = Inr q \<Longrightarrow>
     (find parameter_path root = None \<longrightarrow>
        parse_xml c clock root = Inl (ValueError ''Missing required <Parameter> element'')) \<and>
     (find parameter_path root = Some pe \<longrightarrow>
        (\<not> has_attrib pe ''password'' \<longrightarrow>
           parse_xml c clock root = Inl (ValueError ''Missing required parameter: password'')) \<and>
        (has_attrib pe ''password'' \<longrightarrow> \<not> has_attrib pe ''username'' \<longrightarrow>
           parse_xml c clock root = Inl (ValueError ''Missing required parameter: username'')) \<and>
        (has_attrib pe ''password'' \<longrightarrow> has_attrib pe ''username'' \<longrightarrow>
         \<not> has_attrib pe ''CompanyID'' \<longrightarrow>
           parse_xml c clock root = Inl (ValueError ''Missing required parameter: CompanyID'')) \<and>
        (has_attrib pe ''password'' \<longrightarrow> has_attrib pe ''username'' \<longrightarrow>
         has_attrib pe ''CompanyID'' \<longrightarrow>
           check_params pe required_params = Inr () \<and>
           extract_fields c root =
             Inr (findtext [Descendant ''source'', Child ''languageCode''] (DEFAULT_LANGUAGE c) root,
                  q,
                  findtext [Descendant ''Currency''] (DEFAULT_CURRENCY c) root,
                  findtext [Descendant ''Nationality''] (DEFAULT_NATIONALITY c) root,
                  findtext_none [Descendant ''StartDate''] root,
                  findtext_none [Descendant ''EndDate''] root)))"
proof -
  assume q: "py_int (findtext [Descendant ''optionsQuota''] ''20'' root) = Inr q"
  have ok: "extract_fields c root =
             Inr (findtext [Descendant ''source'', Child ''languageCode''] (DEFAULT_LANGUAGE c) root,
                  q,
                  findtext [Descendant ''Currency''] (DEFAULT_CURRENCY c) root,
                  findtext [Descendant ''Nationality''] (DEFAULT_NATIONALITY c) root,
                  findtext_none [Descendant ''StartDate''] root,
                  findtext_none [Descendant ''EndDate''] root)"
    if "find parameter_path root = Some pe" "check_params pe required_params = Inr ()"
    using that q by (simp add: extract_fields_def)
  show ?thesis
    using parse_xml_no_parameter[OF q, where c = c and clock = clock]
      parse_xml_bad_parameter[OF q, where pe = pe and c = c and clock = clock] ok
    by (auto simp: check_params_required)
qed

theorem C6_credential_block_witness:
  "parse_xml example_constants noon_23_02_2025
     (Element ''AvailRQ'' [] None [leaf ''StartDate'' ''26/02/2025'']) =
     Inl (ValueError ''Missing required <Parameter> element'') \<and>
   parse_xml example_constants noon_23_02_2025
     (request_doc [(''username'', ''testuser''), (''CompanyID'', ''123456'')]
        quota_20 (dates_elems ''26/02/2025'' ''01/03/2025'') []) =
     Inl (ValueError ''Missing required parameter: password'') \<and>
   parse_xml example_constants noon_23_02_2025
     (request_doc [(''password'', ''testpass''), (''CompanyID'', ''123456'')]
        quota_20 (dates_elems ''26/02/2025'' ''01/03/2025'') []) =
     Inl (ValueError ''Missing required parameter: username'') \<and>
   parse_xml example_constants noon_23_02_2025
     (request_doc [(''password'', ''testpass''), (''username'', ''testuser'')]
        quota_20 (dates_elems ''26/02/2025'' ''01/03/2025'') []) =
     Inl (ValueError ''Missing required parameter: CompanyID'') \<and>
   check_params (Element ''Parameter'' test_attrs None []) required_params = Inr ()"
proof -
  let ?c = example_constants
  let ?d0 = "Element ''AvailRQ'' [] None [leaf ''StartDate'' ''26/02/2025'']"
  let ?doc = "\<lambda>attrs. request_doc attrs quota_20 (dates_elems ''26/02/2025'' ''01/03/2025'') []"
  have q0: "py_int (findtext [Descendant ''optionsQuota''] ''20'' ?d0) = Inr 20"
    by code_simp
  have f0: "find parameter_path ?d0 = None"
    by code_simp
  have q: "py_int (findtext [Descendant ''optionsQuota''] ''20'' (?doc attrs)) = Inr 20" for attrs
    by (simp add: request_doc_def quota_20_def leaf_def findtext_def findtext_none_def find_def
        findall_def py_int_20)
  have f: "find parameter_path (?doc attrs) = Some (Element ''Parameter'' attrs None [])" for attrs
    by (simp add: request_doc_def quota_20_def leaf_def find_def findall_def parameter_path_def
        configuration_elem_def dates_elems_def)
  have a: "\<not> has_attrib (Element ''Parameter'' [(''username'', ''testuser''), (''CompanyID'', ''123456'')] None []) ''password''"
    "has_attrib (Element ''Parameter'' [(''password'', ''testpass''), (''CompanyID'', ''123456'')] None []) ''password''"
    "\<not> has_attrib (Element ''Parameter'' [(''password'', ''testpass''), (''CompanyID'', ''123456'')] None []) ''username''"
    "has_attrib (Element ''Parameter'' [(''password'', ''testpass''), (''username'', ''testuser'')] None []) ''password''"
    "has_attrib (Element ''Parameter'' [(''password'', ''testpass''), (''username'', ''testuser'')] None []) ''username''"
    "\<not> has_attrib (Element ''Parameter'' [(''password'', ''testpass''), (''username'', ''testuser'')] None []) ''CompanyID''"
    "has_attrib (Element ''Parameter'' test_attrs None []) ''password''"
    "has_attrib (Element ''Parameter'' test_attrs None []) ''username''"
    "has_attrib (Element ''Parameter'' test_attrs None []) ''CompanyID''"
    by (simp_all add: has_attrib_def test_attrs_def)
  show ?thesis
    using C6_credential_block[OF q0, where c = ?c and clock = noon_23_02_2025] f0
      C6_credential_block[OF q[of "[(''username'', ''testuser''), (''CompanyID'', ''123456'')]"], where c = ?c and clock = noon_23_02_2025
        and pe = "Element ''Parameter'' [(''username'', ''testuser''), (''CompanyID'', ''123456'')] None []"]
      C6_credential_block[OF q[of "[(''password'', ''testpass''), (''CompanyID'', ''123456'')]"], where c = ?c and clock = noon_23_02_2025
        and pe = "Element ''Parameter'' [(''password'', ''testpass''), (''CompanyID'', ''123456'')] None []"]
      C6_credential_block[OF q[of "[(''password'', ''testpass''), (''username'', ''testuser'')]"], where c = ?c and clock = noon_23_02_2025
        and pe = "Element ''Parameter'' [(''password'', ''testpass''), (''username'', ''testuser'')] None []"]
      C6_credential_block[OF q[of test_attrs], where c = ?c and clock = noon_23_02_2025
        and pe = "Element ''Parameter'' test_attrs None []"]
      f a
    by simp
qed

text \<open>
  C8 (pipeline ordering and atomicity). \<^verbatim>\<open>process_request\<close> runs the field extraction, then
  the room extraction with its validation, then the basic-field validation, then the date
  validation, then the pricing. The error of the first stage that fails is the result of
  the request, unchanged, whatever the later stages would have done; the result is then
  the error alone, with no record and no response. When every stage succeeds the result
  is the response generated from the complete record.
\<close>

theorem C8_pipeline:
  "(extract_fields c root = Inl e \<longrightarrow> process_request c ev root = Inl e) \<and>
   (extract_fields c root = Inr (lang, quota, cur, natl, s, d) \<longrightarrow>
      (parse_rooms c root = Inl e \<longrightarrow> process_request c ev root = Inl e) \<and>
      (parse_rooms c root = Inr rs \<longrightarrow>
         (validate_basic_fields c lang cur natl quota = Inl e \<longrightarrow>
            process_request c ev root = Inl e) \<and>
         (validate_basic_fields c lang cur natl quota = Inr () \<longrightarrow>
            (validate_dates (today ev) s d = Inl e \<longrightarrow> process_request c ev root = Inl e) \<and>
            (validate_dates (today ev) s d = Inr (start, fin) \<longrightarrow>
               process_request c ev root =
                 Inr (generate_response c ev
                   \<lparr>language = lang, options_quota = quota, currency = cur, nationality = natl,
                    start_date = start, end_date = fin, ocg = var_ocg,
                    rooms = (if rs \<noteq> [] then Some rs else None)\<rparr>)))))"
  by (simp add: process_request_staged)

theorem C8_pipeline_witness:
  "process_request example_constants example_env
     (request_doc [(''username'', ''testuser''), (''CompanyID'', ''123456'')]
        [leaf ''optionsQuota'' ''60''] (dates_elems ''23/02/2025'' ''24/02/2025'') [paxes_elem [''4'']]) =
     Inl (ValueError ''Missing required parameter: password'') \<and>
   process_request example_constants example_env
     (request_doc test_attrs
        [leaf ''optionsQuota'' ''60''] (dates_elems ''23/02/2025'' ''24/02/2025'') [paxes_elem [''4'']]) =
     Inl (ValueError ''A child must have at least one accompanying adult in the same room'') \<and>
   process_request example_constants example_env
     (request_doc test_attrs
        [leaf ''optionsQuota'' ''60''] (dates_elems ''23/02/2025'' ''24/02/2025'') [paxes_elem [''30'', ''5'']]) =
     Inl (ValueError ''optionsQuota cannot be greater than 50'') \<and>
   process_request example_constants example_env
     (request_doc test_attrs quota_20 (dates_elems ''23/02/2025'' ''24/02/2025'') [paxes_elem [''30'', ''5'']]) =
     Inl (ValueError ''StartDate must be at least 2 days from today'') \<and>
   process_request example_constants example_env (valid_xml ''26/02/2025'' ''01/03/2025'') =
     Inr (generate_response example_constants example_env
       \<lparr>language = ''en'', options_quota = 20, currency = ''USD'', nationality = ''US'',
        start_date = \<lparr>day_ordinal = 739308, usec_of_day = 0\<rparr>,
        end_date = \<lparr>day_ordinal = 739311, usec_of_day = 0\<rparr>, ocg = var_ocg,
        rooms = Some [[\<lparr>pax_type = ''Adult'', age = 30\<rparr>, \<lparr>pax_type = ''Child'', age = 5\<rparr>]]\<rparr>)"
proof -
  let ?c = example_constants
  let ?d1 = "request_doc [(''username'', ''testuser''), (''CompanyID'', ''123456'')]
        [leaf ''optionsQuota'' ''60''] (dates_elems ''23/02/2025'' ''24/02/2025'') [paxes_elem [''4'']]"
  let ?d2 = "request_doc test_attrs
        [leaf ''optionsQuota'' ''60''] (dates_elems ''23/02/2025'' ''24/02/2025'') [paxes_elem [''4'']]"
  let ?d3 = "request_doc test_attrs
        [leaf ''optionsQuota'' ''60''] (dates_elems ''23/02/2025'' ''24/02/2025'') [paxes_elem [''30'', ''5'']]"
  let ?d4 = "request_doc test_attrs quota_20 (dates_elems ''23/02/2025'' ''24/02/2025'') [paxes_elem [''30'', ''5'']]"
  let ?d5 = "valid_xml ''26/02/2025'' ''01/03/2025''"
  let ?room = "[\<lparr>pax_type = ''Adult'', age = 30\<rparr>, \<lparr>pax_type = ''Child'', age = 5\<rparr>]"
  have x1: "extract_fields ?c ?d1 = Inl (ValueError ''Missing required parameter: password'')"
    by code_simp
  have x2: "extract_fields ?c ?d2 =
      Inr (''en'', 60, ''USD'', ''US'', Some ''23/02/2025'', Some ''24/02/2025'')"
    by code_simp
  have r2: "parse_rooms ?c ?d2 =
      Inl (ValueError ''A child must have at least one accompanying adult in the same room'')"
    by code_simp
  have x3: "extract_fields ?c ?d3 =
      Inr (''en'', 60, ''USD'', ''US'', Some ''23/02/2025'', Some ''24/02/2025'')"
    by code_simp
  have r3: "parse_rooms ?c ?d3 = Inr [?room]"
    by code_simp
  have b3: "validate_basic_fields ?c ''en'' ''USD'' ''US'' 60 =
      Inl (ValueError ''optionsQuota cannot be greater than 50'')"
    by code_simp
  have x4: "extract_fields ?c ?d4 =
      Inr (''en'', 20, ''USD'', ''US'', Some ''23/02/2025'', Some ''24/02/2025'')"
    by code_simp
  have r4: "parse_rooms ?c ?d4 = Inr [?room]"
    by code_simp
  have b4: "validate_basic_fields ?c ''en'' ''USD'' ''US'' 20 = Inr ()"
    by code_simp
  have v4: "validate_dates (today example_env) (Some ''23/02/2025'') (Some ''24/02/2025'') =
      Inl (ValueError ''StartDate must be at least 2 days from today'')"
    by code_simp
  have x5: "extract_fields ?c ?d5 =
      Inr (''en'', 20, ''USD'', ''US'', Some ''26/02/2025'', Some ''01/03/2025'')"
    by code_simp
  have r5: "parse_rooms ?c ?d5 = Inr [?room]"
    by code_simp
  have v5: "validate_dates (today example_env) (Some ''26/02/2025'') (Some ''01/03/2025'') =
      Inr (\<lparr>day_ordinal = 739308, usec_of_day = 0\<rparr>, \<lparr>day_ordinal = 739311, usec_of_day = 0\<rparr>)"
    by code_simp
  have c1: "process_request ?c example_env ?d1 =
      Inl (ValueError ''Missing required parameter: password'')"
    using C8_pipeline[where c = ?c and ev = example_env and root = ?d1] x1 by simp
  have c2: "process_request ?c example_env ?d2 =
      Inl (ValueError ''A child must have at least one accompanying adult in the same room'')"
    using C8_pipeline[where c = ?c and ev = example_env and root = ?d2] x2 r2 by simp
  have c3: "process_request ?c example_env ?d3 =
      Inl (ValueError ''optionsQuota cannot be greater than 50'')"
    using C8_pipeline[where c = ?c and ev = example_env and root = ?d3 and rs = "[?room]"]
      x3 r3 b3 by simp
  have c4: "process_request ?c example_env ?d4 =
      Inl (ValueError ''StartDate must be at least 2 days from today'')"
    using C8_pipeline[where c = ?c and ev = example_env and root = ?d4 and rs = "[?room]"]
      x4 r4 b4 v4 by simp
  have c5: "process_request ?c example_env ?d5 =
     Inr (generate_response ?c example_env
       \<lparr>language = ''en'', options_quota = 20, currency = ''USD'', nationality = ''US'',
        start_date = \<lparr>day_ordinal = 739308, usec_of_day = 0\<rparr>,
        end_date = \<lparr>day_ordinal = 739311, usec_of_day = 0\<rparr>, ocg = var_ocg,
        rooms = Some [?room]\<rparr>)"
    using C8_pipeline[where c = ?c and ev = example_env and root = ?d5 and rs = "[?room]"]
      x5 r5 b4 v5 by simp
  show ?thesis
    using c1 c2 c3 c4 c5 by simp
qed

text \<open>
  C9 (guest construction), as the claim states it: every guest of a successfully built
  room has a non-negative age. The source converts the age attribute with \<^verbatim>\<open>int()\<close> and
  checks no sign: the request of the tests with the guests aged -5 and 30 is accepted, and
  its response carries the room with the guest of age -5.
\<close>

theorem C9_negative_age_counterexample:
  "parse_rooms example_constants
     (request_doc test_attrs quota_20 (dates_elems ''26/02/2025'' ''01/03/2025'')
        [paxes_elem [''-5'', ''30'']]) =
     Inr [[\<lparr>pax_type = ''Child'', age = - 5\<rparr>, \<lparr>pax_type = ''Adult'', age = 30\<rparr>]] \<and>
   map (map_option (map (map age)) \<circ> response_rooms)
     (projr (process_request example_constants example_env
        (request_doc test_attrs quota_20 (dates_elems ''26/02/2025'' ''01/03/2025'')
           [paxes_elem [''-5'', ''30'']]))) = [Some [[- 5, 30]]]"
  by code_simp

text \<open>
  C9 as amended. When the rooms of a document are built, they correspond one to one, in
  order, to the occupancy groups, and the guests of each room to the guest entries of its
  group; the age of a guest is the integer value of the entry's age attribute (of any
  sign), and 0 when the entry has no age attribute; the guest is a Child exactly when the
  age is at most the cutoff, and an Adult exactly when it is not.
\<close>

theorem C9_guest_construction:
  "parse_rooms c root = Inr rs \<Longrightarrow>
     list_all2
       (\<lambda>g room.
          list_all2
            (\<lambda>p x. py_int (get p ''age'' ''0'') = Inr (age x) \<and>
                   (\<not> has_attrib p ''age'' \<longrightarrow> age x = 0) \<and>
                   (pax_type x = ''Child'' \<longleftrightarrow> age x \<le> CHILD_AGE_LIMIT c) \<and>
                   (pax_type x = ''Adult'' \<longleftrightarrow> \<not> age x \<le> CHILD_AGE_LIMIT c))
            (findall [Descendant ''Pax''] g) room)
       (findall [Descendant ''Paxes''] root) rs"
proof -
  assume "parse_rooms c root = Inr rs"
  from parse_rooms_built[OF this] show ?thesis
  proof (rule list_all2_mono)
    fix g room
    assume "list_all2 (built_from c) (findall [Descendant ''Pax''] g) room"
    then show "list_all2
            (\<lambda>p x. py_int (get p ''age'' ''0'') = Inr (age x) \<and>
                   (\<not> has_attrib p ''age'' \<longrightarrow> age x = 0) \<and>
                   (pax_type x = ''Child'' \<longleftrightarrow> age x \<le> CHILD_AGE_LIMIT c) \<and>
                   (pax_type x = ''Adult'' \<longleftrightarrow> \<not> age x \<le> CHILD_AGE_LIMIT c))
            (findall [Descendant ''Pax''] g) room"
    proof (rule list_all2_mono)
      fix p x
      assume b: "built_from c p x"
      show "py_int (get p ''age'' ''0'') = Inr (age x) \<and>
                   (\<not> has_attrib p ''age'' \<longrightarrow> age x = 0) \<and>
                   (pax_type x = ''Child'' \<longleftrightarrow> age x \<le> CHILD_AGE_LIMIT c) \<and>
                   (pax_type x = ''Adult'' \<longleftrightarrow> \<not> age x \<le> CHILD_AGE_LIMIT c)"
        using built_from_facts[OF b] by blast
    qed
  qed
qed

theorem C9_guest_construction_witness:
  "parse_rooms example_constants
     (request_doc test_attrs [] []
        [Element ''Paxes'' [] None [Element ''Pax'' [] None [], pax_elem ''6'', pax_elem ''5'']]) =
     Inr [[\<lparr>pax_type = ''Child'', age = 0\<rparr>, \<lparr>pax_type = ''Adult'', age = 6\<rparr>,
           \<lparr>pax_type = ''Child'', age = 5\<rparr>]] \<and>
   list_all2
       (\<lambda>g room.
          list_all2
            (\<lambda>p x. py_int (get p ''age'' ''0'') = Inr (age x) \<and>
                   (\<not> has_attrib p ''age'' \<longrightarrow> age x = 0) \<and>
                   (pax_type x = ''Child'' \<longleftrightarrow> age x \<le> CHILD_AGE_LIMIT example_constants) \<and>
                   (pax_type x = ''Adult'' \<longleftrightarrow> \<not> age x \<le> CHILD_AGE_LIMIT example_constants))
            (findall [Descendant ''Pax''] g) room)
       (findall [Descendant ''Paxes'']
          (request_doc test_attrs [] []
            [Element ''Paxes'' [] None [Element ''Pax'' [] None [], pax_elem ''6'', pax_elem ''5'']]))
       [[\<lparr>pax_type = ''Child'', age = 0\<rparr>, \<lparr>pax_type = ''Adult'', age = 6\<rparr>,
         \<lparr>pax_type = ''Child'', age = 5\<rparr>]]"
proof -
  have p: "parse_rooms example_constants
     (request_doc test_attrs [] []
        [Element ''Paxes'' [] None [Element ''Pax'' [] None [], pax_elem ''6'', pax_elem ''5'']]) =
     Inr [[\<lparr>pax_type = ''Child'', age = 0\<rparr>, \<lparr>pax_type = ''Adult'', age = 6\<rparr>,
           \<lparr>pax_type = ''Child'', age = 5\<rparr>]]"
    by code_simp
  show ?thesis
    using p C9_guest_construction[OF p] by (rule conjI)
qed

text \<open>
  C10 (empty occupancy group, rooms field). With limits that are not negative, a group
  without guest entries builds the empty room, which passes the three checks, and the
  extraction goes on with the empty room appended. A parsed record has one room for each
  occupancy group of the document, with as many guests as the group has entries, and
  carries the rooms field exactly when that list is not empty, that is, exactly when the
  document has an occupancy group. The response is a single object whose rooms field is
  that of the record, absent when the record has none.
\<close>

theorem C10_rooms_field:
  "(0 \<le> ALLOWED_CHILD_COUNT_PER_ROOM c \<longrightarrow> 0 \<le> ALLOWED_ROOM_GUEST_COUNT c \<longrightarrow>
    findall [Descendant ''Pax''] g = [] \<longrightarrow>
      pax_loop c (findall [Descendant ''Pax''] g) [] 0 = Inr ([], 0) \<and>
      validate_room c [] 0 = Inr () \<and>
      rooms_loop c (g # gs) acc = rooms_loop c gs (acc @ [[]])) \<and>
   (parse_xml c clock root = Inr r \<longrightarrow>
      (\<exists>rs. parse_rooms c root = Inr rs \<and>
            list_all2 (\<lambda>g room. length room = length (findall [Descendant ''Pax''] g))
              (findall [Descendant ''Paxes''] root) rs \<and>
            rooms r = (if rs = [] then None else Some rs)) \<and>
      (rooms r = None \<longleftrightarrow> findall [Descendant ''Paxes''] root = [])) \<and>
   (process_request c ev root = Inr out \<longrightarrow>
      (\<exists>r x. parse_xml c (today ev) root = Inr r \<and> out = [x] \<and> response_rooms x = rooms r))"
proof -
  have one: "pax_loop c (findall [Descendant ''Pax''] g) [] 0 = Inr ([], 0) \<and>
      validate_room c [] 0 = Inr () \<and>
      rooms_loop c (g # gs) acc = rooms_loop c gs (acc @ [[]])"
    if "0 \<le> ALLOWED_CHILD_COUNT_PER_ROOM c" "0 \<le> ALLOWED_ROOM_GUEST_COUNT c"
      "findall [Descendant ''Pax''] g = []"
    using that by (simp add: validate_room_empty)
  have two: "(\<exists>rs. parse_rooms c root = Inr rs \<and>
            list_all2 (\<lambda>g room. length room = length (findall [Descendant ''Pax''] g))
              (findall [Descendant ''Paxes''] root) rs \<and>
            rooms r = (if rs = [] then None else Some rs)) \<and>
      (rooms r = None \<longleftrightarrow> findall [Descendant ''Paxes''] root = [])"
    if r: "parse_xml c clock root = Inr r"
  proof -
    from parse_xml_rooms[OF r] obtain rs where rs: "parse_rooms c root = Inr rs"
      and f: "rooms r = (if rs = [] then None else Some rs)" by blast
    have b: "list_all2 (\<lambda>g room. list_all2 (built_from c) (findall [Descendant ''Pax''] g) room)
       (findall [Descendant ''Paxes''] root) rs"
      using parse_rooms_built[OF rs] .
    have l: "list_all2 (\<lambda>g room. length room = length (findall [Descendant ''Pax''] g))
              (findall [Descendant ''Paxes''] root) rs"
      using b by (rule list_all2_mono) (simp add: list_all2_lengthD)
    have "length (findall [Descendant ''Paxes''] root) = length rs"
      using b by (rule list_all2_lengthD)
    then have iff: "rs = [] \<longleftrightarrow> findall [Descendant ''Paxes''] root = []"
      by (metis length_0_conv)
    have A: "\<exists>rs. parse_rooms c root = Inr rs \<and>
            list_all2 (\<lambda>g room. length room = length (findall [Descendant ''Pax''] g))
              (findall [Descendant ''Paxes''] root) rs \<and>
            rooms r = (if rs = [] then None else Some rs)"
      using rs l f by blast
    have B: "rooms r = None \<longleftrightarrow> findall [Descendant ''Paxes''] root = []"
      unfolding f iff[symmetric] by simp
    show ?thesis using A B by (rule conjI)
  qed
  have three: "\<exists>r x. parse_xml c (today ev) root = Inr r \<and> out = [x] \<and> response_rooms x = rooms r"
    if out: "process_request c ev root = Inr out"
  proof (cases "parse_xml c (today ev) root")
    case (Inl e)
    with out show ?thesis by (simp add: process_request_def)
  next
    case (Inr r)
    with out have "out = generate_response c ev r"
      by (simp add: process_request_def)
    then have "\<exists>x. out = [x] \<and> response_rooms x = rooms r"
      by (simp add: generate_response_def Let_def)
    with Inr show ?thesis by blast
  qed
  have 1: "0 \<le> ALLOWED_CHILD_COUNT_PER_ROOM c \<longrightarrow> 0 \<le> ALLOWED_ROOM_GUEST_COUNT c \<longrightarrow>
    findall [Descendant ''Pax''] g = [] \<longrightarrow>
      pax_loop c (findall [Descendant ''Pax''] g) [] 0 = Inr ([], 0) \<and>
      validate_room c [] 0 = Inr () \<and>
      rooms_loop c (g # gs) acc = rooms_loop c gs (acc @ [[]])"
    by (intro impI, rule one)
  have 2: "parse_xml c clock root = Inr r \<longrightarrow>
      (\<exists>rs. parse_rooms c root = Inr rs \<and>
            list_all2 (\<lambda>g room. length room = length (findall [Descendant ''Pax''] g))
              (findall [Descendant ''Paxes''] root) rs \<and>
            rooms r = (if rs = [] then None else Some rs)) \<and>
      (rooms r = None \<longleftrightarrow> findall [Descendant ''Paxes''] root = [])"
    by (intro impI, rule two)
  have 3: "process_request c ev root = Inr out \<longrightarrow>
      (\<exists>r x. parse_xml c (today ev) root = Inr r \<and> out = [x] \<and> response_rooms x = rooms r)"
    by (intro impI, rule three)
  show ?thesis
    by (rule conjI[OF 1 conjI[OF 2 3]])
qed

theorem C10_rooms_field_witness:
  "parse_rooms example_constants
     (request_doc test_attrs quota_20 (dates_elems ''26/02/2025'' ''01/03/2025'') [paxes_elem []]) =
     Inr [[]] \<and>
   map response_rooms (projr (process_request example_constants example_env
     (request_doc test_attrs quota_20 (dates_elems ''26/02/2025'' ''01/03/2025'') [paxes_elem []]))) =
     [Some [[]]] \<and>
   map response_rooms (projr (process_request example_constants example_env
     (request_doc test_attrs quota_20 (dates_elems ''26/02/2025'' ''01/03/2025'') []))) =
     [None]"
proof -
  let ?c = example_constants
  let ?d1 = "request_doc test_attrs quota_20 (dates_elems ''26/02/2025'' ''01/03/2025'') [paxes_elem []]"
  let ?d0 = "request_doc test_attrs quota_20 (dates_elems ''26/02/2025'' ''01/03/2025'') []"
  let ?rec = "\<lambda>x. \<lparr>language = ''en'', options_quota = 20, currency = ''USD'', nationality = ''US'',
        start_date = \<lparr>day_ordinal = 739308, usec_of_day = 0\<rparr>,
        end_date = \<lparr>day_ordinal = 739311, usec_of_day = 0\<rparr>, ocg = ''OCG_SECRET'',
        rooms = x\<rparr>"
  have lim: "0 \<le> ALLOWED_CHILD_COUNT_PER_ROOM ?c" "0 \<le> ALLOWED_ROOM_GUEST_COUNT ?c"
    by (simp_all add: example_constants_def)
  have e: "findall [Descendant ''Pax''] (paxes_elem []) = []"
    by code_simp
  have g1: "findall [Descendant ''Paxes''] ?d1 = [paxes_elem []]"
    by code_simp
  have g0: "findall [Descendant ''Paxes''] ?d0 = []"
    by code_simp
  have p1: "parse_xml ?c (today example_env) ?d1 = Inr (?rec (Some [[]]))"
    by code_simp
  have p0: "parse_xml ?c (today example_env) ?d0 = Inr (?rec None)"
    by code_simp
  have o1: "process_request ?c example_env ?d1 = Inr (generate_response ?c example_env (?rec (Some [[]])))"
    by (simp add: process_request_def p1)
  have o0: "process_request ?c example_env ?d0 = Inr (generate_response ?c example_env (?rec None))"
    by (simp add: process_request_def p0)
  have a: "parse_rooms ?c ?d1 = Inr [[]]"
  proof -
    from C10_rooms_field[where c = ?c and g = "paxes_elem []" and gs = "[]" and acc = "[]"] lim e
    have "rooms_loop ?c (paxes_elem [] # []) [] = rooms_loop ?c [] ([] @ [[]])"
      by blast
    then show ?thesis by (simp add: parse_rooms_def g1)
  qed
  have b: "map response_rooms (projr (process_request ?c example_env ?d1)) = [Some [[]]]"
  proof -
    from C10_rooms_field[where c = ?c and ev = example_env and root = ?d1
        and out = "generate_response ?c example_env (?rec (Some [[]]))"] o1
    obtain r x where "parse_xml ?c (today example_env) ?d1 = Inr r"
      "generate_response ?c example_env (?rec (Some [[]])) = [x]" "response_rooms x = rooms r"
      by blast
    with p1 o1 show ?thesis by simp
  qed
  have c: "map response_rooms (projr (process_request ?c example_env ?d0)) = [None]"
  proof -
    from C10_rooms_field[where c = ?c and ev = example_env and root = ?d0
        and out = "generate_response ?c example_env (?rec None)"] o0
    obtain r x where "parse_xml ?c (today example_env) ?d0 = Inr r"
      "generate_response ?c example_env (?rec None) = [x]" "response_rooms x = rooms r"
      by blast
    with p0 o0 show ?thesis by simp
  qed
  show ?thesis using a b c by simp
qed

text \<open>
  C5 (pricing). Every request that parses gets a response, a single object: the pricing
  cannot fail. Its selling price is the net price plus the net price times the markup
  over 100, rounded to 2 decimals, and then multiplied by the exchange rate; the rate is
  the entry of the table for the pair of \<open>USD\<close> and the currency of the request, and the
  literal \<open>1.0\<close> when the table has no such entry. Floats being expressions here, the
  equation holds whatever the floating-point operations compute.
\<close>

theorem C5_pricing:
  "parse_xml c (today ev) root = Inr r \<Longrightarrow>
     \<exists>x. process_request c ev root = Inr [x] \<and>
       selling_price (price x) =
         FMul (FRound (FAdd (NET_PRICE c)
                 (FMul (NET_PRICE c) (FDiv (MARKUP_PERCENTAGE c) (FInt 100)))) 2)
              (exchange_rate (price x)) \<and>
       exchange_rate (price x) =
         (case EXCHANGE_RATES c (''USD'', currency r) of None \<Rightarrow> FLit ''1.0'' | Some v \<Rightarrow> v) \<and>
       selling_currency (price x) = currency r \<and>
       currency r = findtext [Descendant ''Currency''] (DEFAULT_CURRENCY c) root"
proof -
  assume r: "parse_xml c (today ev) root = Inr r"
  then have cur: "currency r = findtext [Descendant ''Currency''] (DEFAULT_CURRENCY c) root"
    by (auto simp: parse_xml_staged extract_fields_def Let_def
        split: sum.splits prod.splits option.splits)
  have out: "process_request c ev root = Inr (generate_response c ev r)"
    using r by (simp add: process_request_def)
  show ?thesis
    unfolding out using cur
    by (simp add: generate_response_def Let_def calculate_selling_price_def get_exchange_rate_def)
qed

theorem C5_pricing_witness:
  "map (selling_price \<circ> price)
     (projr (process_request example_constants example_env (valid_xml ''26/02/2025'' ''01/03/2025''))) =
     [FMul (FRound (FAdd (FLit ''132.42'')
              (FMul (FLit ''132.42'') (FDiv (FLit ''3.2'') (FInt 100)))) 2) (FLit ''1.0'')] \<and>
   map (selling_price \<circ> price)
     (projr (process_request example_constants example_env
        (Element ''AvailRQ'' [] None
           [leaf ''Currency'' ''EUR'', configuration_elem test_attrs,
            leaf ''StartDate'' ''26/02/2025'', leaf ''EndDate'' ''01/03/2025'']))) =
     [FMul (FRound (FAdd (FLit ''132.42'')
              (FMul (FLit ''132.42'') (FDiv (FLit ''3.2'') (FInt 100)))) 2) (FLit ''0.85'')]"
proof -
  let ?c = example_constants
  let ?d1 = "valid_xml ''26/02/2025'' ''01/03/2025''"
  let ?d2 = "Element ''AvailRQ'' [] None
           [leaf ''Currency'' ''EUR'', configuration_elem test_attrs,
            leaf ''StartDate'' ''26/02/2025'', leaf ''EndDate'' ''01/03/2025'']"
  have p1: "parse_xml ?c (today example_env) ?d1 =
      Inr \<lparr>language = ''en'', options_quota = 20, currency = ''USD'', nationality = ''US'',
           start_date = \<lparr>day_ordinal = 739308, usec_of_day = 0\<rparr>,
           end_date = \<lparr>day_ordinal = 739311, usec_of_day = 0\<rparr>, ocg = ''OCG_SECRET'',
           rooms = Some [[\<lparr>pax_type = ''Adult'', age = 30\<rparr>, \<lparr>pax_type = ''Child'', age = 5\<rparr>]]\<rparr>"
    by code_simp
  have p2: "parse_xml ?c (today example_env) ?d2 =
      Inr \<lparr>language = ''en'', options_quota = 20, currency = ''EUR'', nationality = ''US'',
           start_date = \<lparr>day_ordinal = 739308, usec_of_day = 0\<rparr>,
           end_date = \<lparr>day_ordinal = 739311, usec_of_day = 0\<rparr>, ocg = ''OCG_SECRET'',
           rooms = None\<rparr>"
    by code_simp
  have k: "NET_PRICE ?c = FLit ''132.42''" "MARKUP_PERCENTAGE ?c = FLit ''3.2''"
    "EXCHANGE_RATES ?c (''USD'', ''USD'') = None"
    "EXCHANGE_RATES ?c (''USD'', ''EUR'') = Some (FLit ''0.85'')"
    by (simp_all add: example_constants_def)
  from C5_pricing[OF p1] obtain x1 where x1: "process_request ?c example_env ?d1 = Inr [x1]"
    "selling_price (price x1) =
       FMul (FRound (FAdd (FLit ''132.42'')
              (FMul (FLit ''132.42'') (FDiv (FLit ''3.2'') (FInt 100)))) 2) (FLit ''1.0'')"
    by (auto simp: k)
  from C5_pricing[OF p2] obtain x2 where x2: "process_request ?c example_env ?d2 = Inr [x2]"
    "selling_price (price x2) =
       FMul (FRound (FAdd (FLit ''132.42'')
              (FMul (FLit ''132.42'') (FDiv (FLit ''3.2'') (FInt 100)))) 2) (FLit ''0.85'')"
    by (auto simp: k)
  show ?thesis
    using x1 x2 by simp
qed

end
